theory Spec2Isabelle
  imports Main
begin

section \<open>Account requests and their stored form\<close>

text \<open>
  Modelled from the spec: \<^verbatim>\<open>NewAccountRequest\<close> is declared in
  \<^verbatim>\<open>ocflib.account.creation\<close>, not in this module. The spec gives
  its fields (username, real name, is-group flag, university-identity ID,
  organization-identity ID, email, encrypted password, \<^verbatim>\<open>handle_warnings\<close>) and the three
  modes \<^verbatim>\<open>CREATE\<close>, \<^verbatim>\<open>SUBMIT\<close>, \<^verbatim>\<open>WARN\<close>. The field of a Python named tuple holds any
  value, so a fourth constructor stands for every value that is none of the three
  constants. The two identity columns are nullable: \<open>None\<close> is Python's \<^verbatim>\<open>None\<close> and
  SQL's \<^verbatim>\<open>NULL\<close>.
\<close>

datatype handle_warnings =
    WARNINGS_WARN
  | WARNINGS_SUBMIT
  | WARNINGS_CREATE
  | WARNINGS_OTHER string

record NewAccountRequest =
  user_name :: string
  real_name :: string
  is_group :: bool
  calnet_uid :: "int option"
  callink_oid :: "int option"
  email :: string
  encrypted_password :: string
  handle_warnings :: handle_warnings

text \<open>
  The SQLAlchemy class \<^verbatim>\<open>StoredNewAccountRequest\<close>, table \<^verbatim>\<open>request\<close>. The primary key
  \<^verbatim>\<open>id\<close> is \<open>None\<close> on an object that has not been inserted; the database assigns it.
\<close>

record StoredNewAccountRequest =
  id_col :: "int option"
  user_name :: string
  real_name :: string
  is_group :: bool
  calnet_uid :: "int option"
  callink_oid :: "int option"
  email :: string
  encrypted_password :: string

definition from_request :: "NewAccountRequest \<Rightarrow> StoredNewAccountRequest" where
  "from_request request =
     \<lparr> id_col = None,
       user_name = NewAccountRequest.user_name request,
       real_name = NewAccountRequest.real_name request,
       is_group = NewAccountRequest.is_group request,
       calnet_uid = NewAccountRequest.calnet_uid request,
       callink_oid = NewAccountRequest.callink_oid request,
       email = NewAccountRequest.email request,
       encrypted_password = NewAccountRequest.encrypted_password request \<rparr>"

text \<open>
  \<^verbatim>\<open>to_request\<close> copies every field of the request type that is also a column (all of
  them but \<^verbatim>\<open>handle_warnings\<close>) and adds the mode it is given. \<open>to_request_default\<close> is the
  call \<^verbatim>\<open>to_request()\<close>, with the default value of the keyword argument.
\<close>

definition to_request :: "StoredNewAccountRequest \<Rightarrow> handle_warnings \<Rightarrow> NewAccountRequest" where
  "to_request self hw =
     \<lparr> NewAccountRequest.user_name = StoredNewAccountRequest.user_name self,
       NewAccountRequest.real_name = StoredNewAccountRequest.real_name self,
       NewAccountRequest.is_group = StoredNewAccountRequest.is_group self,
       NewAccountRequest.calnet_uid = StoredNewAccountRequest.calnet_uid self,
       NewAccountRequest.callink_oid = StoredNewAccountRequest.callink_oid self,
       NewAccountRequest.email = StoredNewAccountRequest.email self,
       NewAccountRequest.encrypted_password = StoredNewAccountRequest.encrypted_password self,
       handle_warnings = hw \<rparr>"

definition to_request_default :: "StoredNewAccountRequest \<Rightarrow> NewAccountRequest" where
  "to_request_default self = to_request self WARNINGS_CREATE"

section \<open>Responses\<close>

record NewAccountResponse =
  status :: string
  errors :: "string list"

definition CREATED :: string where "CREATED = ''created''"
definition FLAGGED :: string where "FLAGGED = ''flagged''"
definition PENDING :: string where "PENDING = ''pending''"
definition REJECTED :: string where "REJECTED = ''rejected''"

section \<open>The world a task runs in\<close>

text \<open>
  The dictionary sent with an event: \<^verbatim>\<open>request.to_dict()\<close>, or that dictionary with the
  key \<^verbatim>\<open>reasons\<close> set, \<^verbatim>\<open>dict(request.to_dict(), reasons=warnings)\<close>. \<^verbatim>\<open>to_dict\<close> belongs to
  the request class of \<^verbatim>\<open>ocflib.account.creation\<close>, so the dictionary is kept symbolic.
\<close>

datatype payload =
    to_dict NewAccountRequest
  | dict_reasons payload "string list"

text \<open>
  Everything a task does to its surroundings, in the order it is done: progress updates
  of the Celery task, committed writes to the table, the call of the account
  provisioner, events, enqueued \<^verbatim>\<open>create_account\<close> jobs and rejection mails.
\<close>

datatype effect =
    Update_state "string list"
  | Insert_row StoredNewAccountRequest
  | Delete_row StoredNewAccountRequest
  | Real_create_account NewAccountRequest
  | Dispatch_event string payload
  | Delay_create_account NewAccountRequest
  | Send_rejected_mail NewAccountRequest string

text \<open>
  The exceptions that end a task: the store's refusal of an insert (a value that does
  not fit its column, a username that is already stored), what \<^verbatim>\<open>session.delete\<close> raises
  when it is handed \<^verbatim>\<open>None\<close>, an attribute read on \<^verbatim>\<open>None\<close>, and a failure of the account
  provisioner.
\<close>

datatype exn =
    DataError
  | IntegrityError
  | UnmappedInstanceError
  | AttributeError
  | CreationFailure string

text \<open>
  The database behind every session (the rows of the table in the store's order and the
  counter the next primary key comes from) and the effects performed so far. The broker
  and the database connection are taken to be available.
\<close>

record world =
  request_table :: "StoredNewAccountRequest list"
  auto_increment :: int
  effects :: "effect list"

text \<open>
  Modelled from the spec: \<^verbatim>\<open>validate_request\<close> and \<^verbatim>\<open>create_account\<close> (imported as
  \<^verbatim>\<open>real_create_account\<close>) live in \<^verbatim>\<open>ocflib.account.creation\<close>. The Validator returns
  \<open>(errors, warnings)\<close> from the request and what its session shows of the table. The
  Provisioner "raises/fails on unrecoverable provisioning error": \<open>None\<close> is a normal
  return, \<open>Some msg\<close> an exception.
\<close>

record creation =
  validate_request :: "NewAccountRequest \<Rightarrow> StoredNewAccountRequest list \<Rightarrow> string list \<times> string list"
  real_create_account :: "NewAccountRequest \<Rightarrow> string option"

section \<open>Sessions\<close>

text \<open>
  A session is a unit of work: the objects added and the objects marked for deletion
  since it was opened. \<^verbatim>\<open>get_session()\<close> opens a fresh one. \<^verbatim>\<open>session.delete(None)\<close>
  raises (SQLAlchemy's \<^verbatim>\<open>UnmappedInstanceError\<close>). \<^verbatim>\<open>commit\<close> writes the unit of work in
  one transaction: an insert that the table refuses raises and the transaction leaves the
  database as it was.
\<close>

record session =
  new :: "StoredNewAccountRequest list"
  deleted :: "StoredNewAccountRequest list"

definition get_session :: session where
  "get_session = \<lparr> new = [], deleted = [] \<rparr>"

definition session_add :: "StoredNewAccountRequest \<Rightarrow> session \<Rightarrow> session" where
  "session_add row s = s\<lparr> new := new s @ [row] \<rparr>"

definition session_delete :: "StoredNewAccountRequest option \<Rightarrow> session \<Rightarrow> exn + session" where
  "session_delete row s =
     (case row of
        None \<Rightarrow> Inl UnmappedInstanceError
      | Some r \<Rightarrow> Inr (s\<lparr> deleted := deleted s @ [r] \<rparr>))"

text \<open>
  The columns as the class declares them: \<^verbatim>\<open>Integer\<close> for \<^verbatim>\<open>id\<close>, \<^verbatim>\<open>calnet_uid\<close> and
  \<^verbatim>\<open>callink_oid\<close> (MySQL's 32-bit signed \<^verbatim>\<open>INTEGER\<close>; the last two may be \<^verbatim>\<open>NULL\<close>),
  \<^verbatim>\<open>String(255)\<close> for \<^verbatim>\<open>user_name\<close>, \<^verbatim>\<open>real_name\<close> and \<^verbatim>\<open>email\<close>, \<^verbatim>\<open>LargeBinary(510)\<close> for
  \<^verbatim>\<open>encrypted_password\<close>. One element of a \<open>string\<close> is one character of the text
  columns and one byte of the binary one. The module does not check these bounds before
  it stores a request (its comment: "TODO: enforce these lengths during submission as
  errors").
\<close>

definition fits_Integer :: "int \<Rightarrow> bool" where
  "fits_Integer i \<longleftrightarrow> - 2147483648 \<le> i \<and> i \<le> 2147483647"

definition fits_columns :: "StoredNewAccountRequest \<Rightarrow> bool" where
  "fits_columns row \<longleftrightarrow>
     (case id_col row of None \<Rightarrow> True | Some i \<Rightarrow> fits_Integer i)
     \<and> length (StoredNewAccountRequest.user_name row) \<le> 255
     \<and> length (StoredNewAccountRequest.real_name row) \<le> 255
     \<and> (case StoredNewAccountRequest.calnet_uid row of
           None \<Rightarrow> True | Some i \<Rightarrow> fits_Integer i)
     \<and> (case StoredNewAccountRequest.callink_oid row of
           None \<Rightarrow> True | Some i \<Rightarrow> fits_Integer i)
     \<and> length (StoredNewAccountRequest.email row) \<le> 255
     \<and> length (StoredNewAccountRequest.encrypted_password row) \<le> 510"

text \<open>
  One \<^verbatim>\<open>INSERT\<close>. The database gives the row the next primary key. A row with a value
  outside its column is refused and nothing of it is stored, truncated or not (the
  store in its strict mode); then a row whose \<^verbatim>\<open>user_name\<close> is already in the table is
  refused by the unique index.
\<close>

definition insert_row :: "StoredNewAccountRequest \<Rightarrow> world \<Rightarrow> exn + world" where
  "insert_row row w =
     (let row' = row\<lparr> id_col := Some (auto_increment w) \<rparr>
      in if \<not> fits_columns row' then Inl DataError
         else if StoredNewAccountRequest.user_name row
                   \<in> set (map StoredNewAccountRequest.user_name (request_table w))
         then Inl IntegrityError
         else Inr (w\<lparr> request_table := request_table w @ [row'],
                       auto_increment := auto_increment w + 1,
                       effects := effects w @ [Insert_row row'] \<rparr>))"

fun insert_rows :: "StoredNewAccountRequest list \<Rightarrow> world \<Rightarrow> exn + world" where
  "insert_rows [] w = Inr w"
| "insert_rows (row # rows) w =
     (case insert_row row w of
        Inl e \<Rightarrow> Inl e
      | Inr w' \<Rightarrow> insert_rows rows w')"

definition delete_row :: "StoredNewAccountRequest \<Rightarrow> world \<Rightarrow> world" where
  "delete_row row w =
     w\<lparr> request_table := filter (\<lambda>r. id_col r \<noteq> id_col row) (request_table w),
        effects := effects w @ [Delete_row row] \<rparr>"

definition session_commit :: "session \<Rightarrow> world \<Rightarrow> exn + world" where
  "session_commit s w =
     (case insert_rows (new s) w of
        Inl e \<Rightarrow> Inl e
      | Inr w' \<Rightarrow> Inr (fold delete_row (deleted s) w'))"

text \<open>
  The two queries of the module. \<^verbatim>\<open>SELECT EXISTS (... WHERE p)\<close> and
  \<^verbatim>\<open>.filter(p).first()\<close> read the table and return the world they were given.
\<close>

definition query_exists :: "(StoredNewAccountRequest \<Rightarrow> bool) \<Rightarrow> world \<Rightarrow> bool \<times> world" where
  "query_exists p w = (list_ex p (request_table w), w)"

definition query_first ::
  "(StoredNewAccountRequest \<Rightarrow> bool) \<Rightarrow> world \<Rightarrow> StoredNewAccountRequest option \<times> world" where
  "query_first p w = (find p (request_table w), w)"

section \<open>Deduplication queries\<close>

definition username_pending :: "world \<Rightarrow> NewAccountRequest \<Rightarrow> bool \<times> world" where
  "username_pending session request =
     query_exists
       (\<lambda>row. StoredNewAccountRequest.user_name row = NewAccountRequest.user_name request)
       session"

text \<open>
  A comparison of a column with Python's \<^verbatim>\<open>None\<close> is rendered \<^verbatim>\<open>IS NULL\<close>, and a comparison
  of a \<^verbatim>\<open>NULL\<close> column with a number selects nothing: equality on \<open>int option\<close>.
\<close>

definition user_has_request_pending :: "world \<Rightarrow> NewAccountRequest \<Rightarrow> bool \<times> world" where
  "user_has_request_pending session request =
     (let query =
            (if NewAccountRequest.is_group request
                \<and> NewAccountRequest.callink_oid request \<noteq> Some 0
             then Some (\<lambda>row. StoredNewAccountRequest.callink_oid row
                                = NewAccountRequest.callink_oid request)
             else if \<not> NewAccountRequest.is_group request
             then Some (\<lambda>row. StoredNewAccountRequest.calnet_uid row
                                = NewAccountRequest.calnet_uid request)
             else None)
      in case query of
           None \<Rightarrow> (False, session)
         | Some q \<Rightarrow> query_exists q session)"

section \<open>The tasks\<close>

text \<open>
  The source's \<^verbatim>\<open>_report_status\<close>: append the line to the task's status list and send the
  list as the task's progress.
\<close>

definition report_status_line :: "string \<Rightarrow> string list \<times> world \<Rightarrow> string list \<times> world" where
  "report_status_line line = (\<lambda>(status', w).
     let status'' = status' @ [line]
     in (status'', w\<lparr> effects := effects w @ [Update_state status''] \<rparr>))"

text \<open>
  The context manager \<^verbatim>\<open>report_status\<close>: the start line, the body, and the stop line when
  the body ends without an exception (a \<^verbatim>\<open>return\<close> inside the block included). An
  exception in the body leaves the block without the stop line.
\<close>

definition report_status ::
  "string \<Rightarrow> string \<Rightarrow> string \<Rightarrow> (string list \<times> world \<Rightarrow> (exn + 'a) \<times> string list \<times> world)
     \<Rightarrow> string list \<times> world \<Rightarrow> (exn + 'a) \<times> string list \<times> world" where
  "report_status start stop task body s =
     (case body (report_status_line (start @ '' '' @ task) s) of
        (Inl e, s') \<Rightarrow> (Inl e, s')
      | (Inr x, s') \<Rightarrow> (Inr x, report_status_line (stop @ '' '' @ task) s'))"

definition dispatch_event :: "string \<Rightarrow> payload \<Rightarrow> world \<Rightarrow> world" where
  "dispatch_event event_type request w =
     w\<lparr> effects := effects w @ [Dispatch_event event_type request] \<rparr>"

text \<open>
  The block under \<^verbatim>\<open>WARNINGS_SUBMIT\<close>: store the request, publish the event, return
  \<^verbatim>\<open>PENDING\<close>. The insert has no error handling: what the commit raises leaves the task.
\<close>

definition submit ::
  "NewAccountRequest \<Rightarrow> string list \<Rightarrow> string list \<times> world
     \<Rightarrow> (exn + NewAccountResponse) \<times> string list \<times> world" where
  "submit request warnings = (\<lambda>(status', w).
     let stored_request = from_request request;
         session = session_add stored_request get_session
     in case session_commit session w of
          Inl e \<Rightarrow> (Inl e, status', w)
        | Inr w' \<Rightarrow>
            (Inr \<lparr> status = PENDING, errors = warnings \<rparr>, status',
             dispatch_event ''ocflib.account_submitted''
               (dict_reasons (to_dict request) warnings) w'))"

text \<open>
  The last three statements of \<^verbatim>\<open>create_account\<close>: the provisioner, the event, the
  response. The effect \<open>Real_create_account\<close> stands for the whole call, the progress
  lines the provisioner reports through its callback included.
\<close>

definition provision ::
  "creation \<Rightarrow> NewAccountRequest \<Rightarrow> world \<Rightarrow> (exn + NewAccountResponse) \<times> world" where
  "provision c request w =
     (let w' = w\<lparr> effects := effects w @ [Real_create_account request] \<rparr>
      in case real_create_account c request of
           Some msg \<Rightarrow> (Inl (CreationFailure msg), w')
         | None \<Rightarrow>
             (Inr \<lparr> status = CREATED, errors = [] \<rparr>,
              dispatch_event ''ocflib.account_created'' (to_dict request) w'))"

text \<open>
  \<^verbatim>\<open>create_account\<close>. The statements that return early give \<open>Some\<close>; where none of them
  does, control reaches the provisioner.
\<close>

definition create_account ::
  "creation \<Rightarrow> NewAccountRequest \<Rightarrow> world \<Rightarrow> (exn + NewAccountResponse) \<times> world" where
  "create_account c request w0 =
     (case report_status ''Validating'' ''Validated'' ''account request''
             (\<lambda>(status', w). (Inr (validate_request c request (request_table w)), status', w))
             ([], w0) of
        (Inl e, status', w) \<Rightarrow> (Inl e, w)
      | (Inr (errors', warnings), status', w) \<Rightarrow>
          (case (if errors' \<noteq> [] then
                   Some (Inr \<lparr> status = REJECTED, errors = errors' @ warnings \<rparr>, w)
                 else if warnings \<noteq> [] then
                   (if handle_warnings request = WARNINGS_SUBMIT then
                      (case report_status ''Submitting'' ''Submitted''
                              ''account for staff approval''
                              (submit request warnings) (status', w) of
                         (r, status'', w') \<Rightarrow> Some (r, w'))
                    else if handle_warnings request = WARNINGS_WARN then
                      Some (Inr \<lparr> status = FLAGGED, errors = warnings \<rparr>, w)
                    else None)
                 else None) of
             Some returned \<Rightarrow> returned
           | None \<Rightarrow> provision c request w))"

definition get_pending_requests :: "world \<Rightarrow> StoredNewAccountRequest list \<times> world" where
  "get_pending_requests w = (request_table w, w)"

text \<open>
  Fetch the stored request, then remove it: one session queries, deletes and commits.
  With no row for the name, \<^verbatim>\<open>first()\<close> gives \<^verbatim>\<open>None\<close> and \<^verbatim>\<open>session.delete\<close> raises.
\<close>

definition get_remove_row_by_user_name ::
  "string \<Rightarrow> world \<Rightarrow> (exn + NewAccountRequest) \<times> world" where
  "get_remove_row_by_user_name user_name' w =
     (let session = get_session;
          (request_row, w1) =
             query_first (\<lambda>row. StoredNewAccountRequest.user_name row = user_name') w
      in case session_delete request_row session of
           Inl e \<Rightarrow> (Inl e, w1)
         | Inr session' \<Rightarrow>
             (case session_commit session' w1 of
                Inl e \<Rightarrow> (Inl e, w1)
              | Inr w2 \<Rightarrow>
                  (case request_row of
                     None \<Rightarrow> (Inl AttributeError, w2)
                   | Some row \<Rightarrow> (Inr (to_request_default row), w2))))"

definition approve_request :: "string \<Rightarrow> world \<Rightarrow> (exn + unit) \<times> world" where
  "approve_request user_name' w =
     (case get_remove_row_by_user_name user_name' w of
        (Inl e, w') \<Rightarrow> (Inl e, w')
      | (Inr request, w') \<Rightarrow>
          (let w'' = w'\<lparr> effects := effects w' @ [Delay_create_account request] \<rparr>
           in (Inr (), dispatch_event ''ocflib.account_approved'' (to_dict request) w'')))"

definition reject_request :: "string \<Rightarrow> world \<Rightarrow> (exn + unit) \<times> world" where
  "reject_request user_name' w =
     (case get_remove_row_by_user_name user_name' w of
        (Inl e, w') \<Rightarrow> (Inl e, w')
      | (Inr request, w') \<Rightarrow>
          (let reason = ''TODO: come up with a reason'';
               w'' = w'\<lparr> effects := effects w' @ [Send_rejected_mail request reason] \<rparr>
           in (Inr (), dispatch_event ''ocflib.account_rejected'' (to_dict request) w'')))"

section \<open>Reading the effects of a run\<close>

definition effects_since :: "world \<Rightarrow> world \<Rightarrow> effect list" where
  "effects_since w w' = drop (length (effects w)) (effects w')"

fun is_store_write :: "effect \<Rightarrow> bool" where
  "is_store_write (Insert_row row) = True"
| "is_store_write (Delete_row row) = True"
| "is_store_write e = False"

fun provisioner_call :: "effect \<Rightarrow> NewAccountRequest option" where
  "provisioner_call (Real_create_account request) = Some request"
| "provisioner_call e = None"

fun event :: "effect \<Rightarrow> (string \<times> payload) option" where
  "event (Dispatch_event event_type request) = Some (event_type, request)"
| "event e = None"

definition store_writes :: "effect list \<Rightarrow> effect list" where
  "store_writes es = filter is_store_write es"

definition provisioner_calls :: "effect list \<Rightarrow> NewAccountRequest list" where
  "provisioner_calls es = List.map_filter provisioner_call es"

definition events :: "effect list \<Rightarrow> (string \<times> payload) list" where
  "events es = List.map_filter event es"

text \<open>
  What the table's primary key and its unique index on \<^verbatim>\<open>user_name\<close> keep true of the
  stored rows.
\<close>

definition table_ok :: "world \<Rightarrow> bool" where
  "table_ok w \<longleftrightarrow>
     distinct (map StoredNewAccountRequest.user_name (request_table w))
     \<and> distinct (map id_col (request_table w))
     \<and> list_all (\<lambda>row. case id_col row of None \<Rightarrow> False | Some i \<Rightarrow> i < auto_increment w)
          (request_table w)"

section \<open>Sample requests and worlds\<close>

definition carol :: "handle_warnings \<Rightarrow> NewAccountRequest" where
  "carol hw =
     \<lparr> NewAccountRequest.user_name = ''carol'',
       NewAccountRequest.real_name = ''Carol Doe'',
       NewAccountRequest.is_group = False,
       NewAccountRequest.calnet_uid = Some 999,
       NewAccountRequest.callink_oid = None,
       NewAccountRequest.email = ''carol@example.com'',
       NewAccountRequest.encrypted_password = ''secret'',
       handle_warnings = hw \<rparr>"

definition club :: "int option \<Rightarrow> NewAccountRequest" where
  "club oid =
     \<lparr> NewAccountRequest.user_name = ''chess'',
       NewAccountRequest.real_name = ''Chess Club'',
       NewAccountRequest.is_group = True,
       NewAccountRequest.calnet_uid = None,
       NewAccountRequest.callink_oid = oid,
       NewAccountRequest.email = ''chess@example.com'',
       NewAccountRequest.encrypted_password = ''secret'',
       handle_warnings = WARNINGS_WARN \<rparr>"

definition overlong :: NewAccountRequest where
  "overlong = (carol WARNINGS_SUBMIT)\<lparr> NewAccountRequest.real_name := replicate 300 CHR ''a'' \<rparr>"

definition out_of_range :: NewAccountRequest where
  "out_of_range =
     (carol WARNINGS_SUBMIT)\<lparr> NewAccountRequest.calnet_uid := Some 9223372036854775808 \<rparr>"

definition empty_world :: world where
  "empty_world = \<lparr> request_table = [], auto_increment = 1, effects = [] \<rparr>"

definition pending :: "NewAccountRequest \<Rightarrow> world" where
  "pending request =
     \<lparr> request_table = [(from_request request)\<lparr> id_col := Some 1 \<rparr>],
       auto_increment = 2,
       effects = [] \<rparr>"

definition rejecting :: creation where
  "rejecting =
     \<lparr> validate_request = (\<lambda>request table. ([''username taken''], [''name mismatch''])),
       real_create_account = (\<lambda>request. None) \<rparr>"

definition flagging :: creation where
  "flagging =
     \<lparr> validate_request = (\<lambda>request table. ([], [''name mismatch''])),
       real_create_account = (\<lambda>request. None) \<rparr>"

definition accepting :: creation where
  "accepting =
     \<lparr> validate_request = (\<lambda>request table. ([], [])),
       real_create_account = (\<lambda>request. None) \<rparr>"

definition failing :: creation where
  "failing =
     \<lparr> validate_request = (\<lambda>request table. ([], [''name mismatch''])),
       real_create_account = (\<lambda>request. Some ''kadmin failed'') \<rparr>"

section \<open>Lemmas on the store\<close>

lemma find_user_name_None:
  "u \<notin> set (map StoredNewAccountRequest.user_name t)
   \<Longrightarrow> find (\<lambda>row. StoredNewAccountRequest.user_name row = u) t = None"
  by (induction t) auto

lemma find_user_name_Some:
  "distinct (map StoredNewAccountRequest.user_name t) \<Longrightarrow> row \<in> set t
   \<Longrightarrow> find (\<lambda>r. StoredNewAccountRequest.user_name r = StoredNewAccountRequest.user_name row) t
       = Some row"
  by (induction t) force+

lemma filter_id_remove1:
  "distinct (map id_col t) \<Longrightarrow> row \<in> set t
   \<Longrightarrow> filter (\<lambda>r. id_col r \<noteq> id_col row) t = remove1 row t"
proof (induction t)
  case Nil
  then show ?case by simp
next
  case (Cons a t)
  show ?case
  proof (cases "a = row")
    case True
    have "\<forall>r\<in>set t. id_col r \<noteq> id_col row"
      using Cons.prems(1) True by (auto simp add: image_iff)
    then have "filter (\<lambda>r. id_col r \<noteq> id_col row) t = t"
      by (simp add: filter_id_conv)
    with True show ?thesis by simp
  next
    case False
    with Cons.prems have "row \<in> set t" and "id_col a \<noteq> id_col row"
      by force+
    with Cons show ?thesis using False by simp
  qed
qed

lemma remove1_user_name_absent:
  "distinct (map StoredNewAccountRequest.user_name t) \<Longrightarrow> row \<in> set t
   \<Longrightarrow> StoredNewAccountRequest.user_name row
       \<notin> set (map StoredNewAccountRequest.user_name (remove1 row t))"
proof (induction t)
  case Nil
  then show ?case by simp
next
  case (Cons a t)
  show ?case
  proof (cases "a = row")
    case True
    with Cons.prems(1) show ?thesis by simp
  next
    case False
    with Cons.prems have mem: "row \<in> set t" by simp
    with Cons.prems(1)
    have "StoredNewAccountRequest.user_name row \<noteq> StoredNewAccountRequest.user_name a"
      by (auto simp add: image_iff)
    moreover have "StoredNewAccountRequest.user_name row
        \<notin> set (map StoredNewAccountRequest.user_name (remove1 row t))"
      using Cons.IH Cons.prems(1) mem by simp
    ultimately show ?thesis using False by simp
  qed
qed

lemma get_remove_row_absent:
  "u \<notin> set (map StoredNewAccountRequest.user_name (request_table w))
   \<Longrightarrow> get_remove_row_by_user_name u w = (Inl UnmappedInstanceError, w)"
  by (simp add: get_remove_row_by_user_name_def query_first_def find_user_name_None
      session_delete_def)

lemma get_remove_row_present:
  assumes "table_ok w" and "row \<in> set (request_table w)"
  shows "get_remove_row_by_user_name (StoredNewAccountRequest.user_name row) w
         = (Inr (to_request_default row),
            w\<lparr> request_table := remove1 row (request_table w),
               effects := effects w @ [Delete_row row] \<rparr>)"
  using assms
  by (simp add: get_remove_row_by_user_name_def query_first_def find_user_name_Some
      session_delete_def session_commit_def get_session_def delete_row_def table_ok_def
      filter_id_remove1)

lemma validating:
  "report_status ''Validating'' ''Validated'' ''account request''
     (\<lambda>(status', w). (Inr (validate_request c request (request_table w)), status', w))
     ([], w0)
   = (Inr (validate_request c request (request_table w0)),
      [''Validating account request'', ''Validated account request''],
      w0\<lparr> effects := effects w0 @
            [Update_state [''Validating account request''],
             Update_state [''Validating account request'', ''Validated account request'']] \<rparr>)"
  by (simp add: report_status_def report_status_line_def Let_def)

subsection \<open>Every task keeps the table well formed\<close>

lemma table_ok_iff:
  "table_ok w \<longleftrightarrow>
     distinct (map StoredNewAccountRequest.user_name (request_table w))
     \<and> distinct (map id_col (request_table w))
     \<and> (\<forall>row\<in>set (request_table w). \<exists>i. id_col row = Some i \<and> i < auto_increment w)"
  by (auto simp add: table_ok_def list_all_iff split: option.splits)

lemma effects_table_ok:
  "table_ok (w\<lparr> effects := es \<rparr>) = table_ok w"
  by (simp add: table_ok_iff)

lemma insert_row_table_ok:
  assumes "table_ok w" and "insert_row row w = Inr w'"
  shows "table_ok w'"
proof -
  let ?row = "row\<lparr> id_col := Some (auto_increment w) \<rparr>"
  from assms(2) have fresh: "StoredNewAccountRequest.user_name row
      \<notin> set (map StoredNewAccountRequest.user_name (request_table w))"
    and w': "w' = w\<lparr> request_table := request_table w @ [?row],
                     auto_increment := auto_increment w + 1,
                     effects := effects w @ [Insert_row ?row] \<rparr>"
    by (auto simp add: insert_row_def Let_def split: if_splits)
  from assms(1)
  have ids: "\<forall>r\<in>set (request_table w). \<exists>i. id_col r = Some i \<and> i < auto_increment w"
    by (simp add: table_ok_iff)
  then have "Some (auto_increment w) \<notin> set (map id_col (request_table w))"
    by force
  moreover from ids
  have "\<forall>r\<in>set (request_table w). \<exists>i. id_col r = Some i \<and> i < auto_increment w + 1"
    by force
  ultimately show ?thesis
    using assms(1) fresh by (simp add: table_ok_iff w')
qed

lemma delete_row_table_ok:
  "table_ok w \<Longrightarrow> table_ok (delete_row row w)"
  by (simp add: delete_row_def table_ok_iff distinct_map_filter)

lemma submit_table_ok:
  assumes "table_ok w"
  shows "table_ok (snd (snd (submit request warnings (status', w))))"
proof (cases "insert_row (from_request request) w")
  case (Inl e)
  with assms show ?thesis
    by (simp add: submit_def session_commit_def session_add_def get_session_def)
next
  case (Inr w')
  with assms have "table_ok w'" by (simp add: insert_row_table_ok)
  with Inr show ?thesis
    by (simp add: submit_def session_commit_def session_add_def get_session_def
        dispatch_event_def effects_table_ok)
qed

lemma report_status_table_ok:
  assumes "\<And>s. table_ok (snd s) \<Longrightarrow> table_ok (snd (snd (body s)))" and "table_ok (snd s)"
  shows "table_ok (snd (snd (report_status start stop task body s)))"
proof -
  have line: "table_ok (snd (report_status_line l s'))" if "table_ok (snd s')" for l s'
    using that by (cases s') (simp add: report_status_line_def Let_def effects_table_ok)
  have "table_ok (snd (snd (body (report_status_line (start @ '' '' @ task) s))))"
    using assms line by simp
  then show ?thesis
    using line by (auto simp add: report_status_def split: prod.splits sum.splits)
qed

lemma provision_table_ok:
  "table_ok w \<Longrightarrow> table_ok (snd (provision c request w))"
  by (simp add: provision_def dispatch_event_def effects_table_ok Let_def split: option.splits)

lemma create_account_table_ok:
  assumes "table_ok w0"
  shows "table_ok (snd (create_account c request w0))"
proof -
  let ?st = "[''Validating account request'', ''Validated account request'']"
  let ?w = "w0\<lparr> effects := effects w0 @
            [Update_state [''Validating account request''],
             Update_state [''Validating account request'', ''Validated account request'']] \<rparr>"
  obtain errs warns where v: "validate_request c request (request_table w0) = (errs, warns)"
    by (cases "validate_request c request (request_table w0)")
  have ok: "table_ok ?w"
    using assms by (simp add: effects_table_ok)
  have sub: "table_ok (snd (snd (report_status ''Submitting'' ''Submitted''
                ''account for staff approval'' (submit request warns) (?st, ?w))))"
  proof (rule report_status_table_ok)
    fix s :: "string list \<times> world"
    assume "table_ok (snd s)"
    then show "table_ok (snd (snd (submit request warns s)))"
      using submit_table_ok [of "snd s" request warns "fst s"] by simp
  next
    show "table_ok (snd (?st, ?w))" using ok by simp
  qed
  have prov: "table_ok (snd (provision c request ?w))"
    using ok by (rule provision_table_ok)
  show ?thesis
    using ok sub prov
    by (auto simp add: create_account_def validating v split: prod.splits)
qed

lemma get_remove_row_table_ok:
  assumes "table_ok w"
  shows "table_ok (snd (get_remove_row_by_user_name u w))"
proof (cases "find (\<lambda>row. StoredNewAccountRequest.user_name row = u) (request_table w)")
  case None
  with assms show ?thesis
    by (simp add: get_remove_row_by_user_name_def query_first_def session_delete_def)
next
  case (Some row)
  with assms show ?thesis
    by (simp add: get_remove_row_by_user_name_def query_first_def session_delete_def
        session_commit_def get_session_def delete_row_table_ok)
qed

lemma approve_request_table_ok:
  assumes "table_ok w"
  shows "table_ok (snd (approve_request u w))"
proof (cases "get_remove_row_by_user_name u w")
  case (Pair r w')
  with assms get_remove_row_table_ok [of w u] have "table_ok w'" by simp
  with Pair show ?thesis
    by (cases r) (simp_all add: approve_request_def dispatch_event_def effects_table_ok)
qed

lemma reject_request_table_ok:
  assumes "table_ok w"
  shows "table_ok (snd (reject_request u w))"
proof (cases "get_remove_row_by_user_name u w")
  case (Pair r w')
  with assms get_remove_row_table_ok [of w u] have "table_ok w'" by simp
  with Pair show ?thesis
    by (cases r) (simp_all add: reject_request_def dispatch_event_def effects_table_ok)
qed

lemma table_ok_empty_world: "table_ok empty_world"
  by (simp add: table_ok_def empty_world_def)

lemma table_ok_pending: "table_ok (pending request)"
  by (simp add: table_ok_def pending_def)

subsection \<open>The paths of \<^verbatim>\<open>create_account\<close>\<close>

lemma create_account_submit_eq:
  assumes "validate_request c request (request_table w) = ([], warns)"
    and "warns \<noteq> []"
    and "handle_warnings request = WARNINGS_SUBMIT"
  shows "create_account c request w =
     (let w1 = w\<lparr> effects := effects w @
                 [Update_state [''Validating account request''],
                  Update_state [''Validating account request'', ''Validated account request''],
                  Update_state [''Validating account request'', ''Validated account request'',
                                ''Submitting account for staff approval'']] \<rparr>
      in case insert_row (from_request request) w1 of
           Inl e \<Rightarrow> (Inl e, w1)
         | Inr w2 \<Rightarrow>
             (Inr \<lparr> status = PENDING, errors = warns \<rparr>,
              w2\<lparr> effects := effects w2 @
                    [Dispatch_event ''ocflib.account_submitted''
                       (dict_reasons (to_dict request) warns),
                     Update_state [''Validating account request'', ''Validated account request'',
                                   ''Submitting account for staff approval'',
                                   ''Submitted account for staff approval'']] \<rparr>))"
  using assms
  by (simp add: create_account_def validating report_status_def report_status_line_def
      submit_def session_add_def get_session_def session_commit_def dispatch_event_def
      Let_def split: sum.splits)

lemma create_account_provision_eq:
  assumes "validate_request c request (request_table w) = ([], warns)"
    and "warns = [] \<or> (handle_warnings request \<noteq> WARNINGS_SUBMIT
                        \<and> handle_warnings request \<noteq> WARNINGS_WARN)"
  shows "create_account c request w =
     provision c request
       (w\<lparr> effects := effects w @
            [Update_state [''Validating account request''],
             Update_state [''Validating account request'', ''Validated account request'']] \<rparr>)"
  using assms by (auto simp add: create_account_def validating)

text \<open>
  A request that passes validation with a warning and whose real name has 300
  characters: the store refuses the row, the task ends with the store's exception and
  the table stays empty.
\<close>

lemma create_account_submit_overlong:
  "fst (create_account flagging overlong empty_world) = Inl DataError
   \<and> request_table (snd (create_account flagging overlong empty_world)) = []"
proof -
  have v: "validate_request flagging overlong (request_table empty_world)
     = ([], [''name mismatch''])"
    by (simp add: flagging_def)
  have n: "[''name mismatch''] \<noteq> []"
    by simp
  have m: "handle_warnings overlong = WARNINGS_SUBMIT"
    by (simp add: overlong_def carol_def)
  have i: "insert_row (from_request overlong) (empty_world\<lparr> effects := es \<rparr>) = Inl DataError"
    for es
    by (simp add: insert_row_def from_request_def overlong_def fits_columns_def Let_def)
  have t: "request_table empty_world = []"
    by (simp add: empty_world_def)
  show ?thesis
    by (simp add: create_account_submit_eq [OF v n m] i t)
qed

text \<open>
  The same with a university ID of \<open>2 ^ 63\<close>, which no \<^verbatim>\<open>Integer\<close> column holds.
\<close>

lemma create_account_submit_out_of_range:
  "fst (create_account flagging out_of_range empty_world) = Inl DataError
   \<and> request_table (snd (create_account flagging out_of_range empty_world)) = []"
proof -
  have v: "validate_request flagging out_of_range (request_table empty_world)
     = ([], [''name mismatch''])"
    by (simp add: flagging_def)
  have n: "[''name mismatch''] \<noteq> []"
    by simp
  have m: "handle_warnings out_of_range = WARNINGS_SUBMIT"
    by (simp add: out_of_range_def carol_def)
  have i: "insert_row (from_request out_of_range) (empty_world\<lparr> effects := es \<rparr>)
      = Inl DataError" for es
    by (simp add: insert_row_def from_request_def out_of_range_def fits_columns_def
        fits_Integer_def Let_def)
  have t: "request_table empty_world = []"
    by (simp add: empty_world_def)
  show ?thesis
    by (simp add: create_account_submit_eq [OF v n m] i t)
qed

section \<open>The claims\<close>

text \<open>
  C1. When the Validator returns a non-empty error list, \<^verbatim>\<open>create_account\<close> returns
  \<^verbatim>\<open>REJECTED\<close> with the errors followed by the warnings, whatever the request's
  \<^verbatim>\<open>handle_warnings\<close> mode is; the table is left as it was, nothing is written to the
  store and the provisioner is not called.
\<close>

theorem create_account_rejected:
  assumes "validate_request c request (request_table w) = (errs, warns)"
    and "errs \<noteq> []"
  shows "case create_account c request w of (r, w') \<Rightarrow>
           r = Inr \<lparr> status = REJECTED, errors = errs @ warns \<rparr>
           \<and> request_table w' = request_table w
           \<and> store_writes (effects_since w w') = []
           \<and> provisioner_calls (effects_since w w') = []"
  using assms
  by (simp add: create_account_def validating effects_since_def
      store_writes_def provisioner_calls_def map_filter_simps)

theorem create_account_rejected_witness:
  "validate_request rejecting (carol WARNINGS_CREATE) (request_table empty_world)
     = ([''username taken''], [''name mismatch''])
   \<and> [''username taken''] \<noteq> []
   \<and> fst (create_account rejecting (carol WARNINGS_CREATE) empty_world)
       = Inr \<lparr> status = REJECTED, errors = [''username taken'', ''name mismatch''] \<rparr>
   \<and> request_table (snd (create_account rejecting (carol WARNINGS_CREATE) empty_world)) = []"
proof -
  have v: "validate_request rejecting (carol WARNINGS_CREATE) (request_table empty_world)
     = ([''username taken''], [''name mismatch''])"
    by (simp add: rejecting_def)
  have e: "[''username taken''] \<noteq> []"
    by simp
  have t: "request_table empty_world = []"
    by (simp add: empty_world_def)
  from create_account_rejected [OF v e] t v show ?thesis
    by (simp add: case_prod_unfold)
qed

text \<open>
  C2. With no errors, a non-empty warning list and mode \<^verbatim>\<open>SUBMIT\<close>, \<^verbatim>\<open>create_account\<close>
  stores the request and answers \<^verbatim>\<open>PENDING\<close>. This needs the store to accept the insert:
  the theorem holds for a request whose username is not pending and whose values, with
  the primary key the row is given, fit the declared columns. Then exactly one row is
  inserted, its fields are those of the request, exactly one \<^verbatim>\<open>account_submitted\<close> event
  carries the request with the warnings as reasons, the response is \<^verbatim>\<open>PENDING\<close> with the
  warnings, and the provisioner is not called.
\<close>

theorem create_account_submitted:
  assumes "validate_request c request (request_table w) = ([], warns)"
    and "warns \<noteq> []"
    and "handle_warnings request = WARNINGS_SUBMIT"
    and "\<not> fst (username_pending w request)"
    and "fits_columns ((from_request request)\<lparr> id_col := Some (auto_increment w) \<rparr>)"
  shows "case create_account c request w of (r, w') \<Rightarrow>
           r = Inr \<lparr> status = PENDING, errors = warns \<rparr>
           \<and> (let row = (from_request request)\<lparr> id_col := Some (auto_increment w) \<rparr>
              in request_table w' = request_table w @ [row]
                 \<and> store_writes (effects_since w w') = [Insert_row row]
                 \<and> to_request row (handle_warnings request) = request)
           \<and> events (effects_since w w')
               = [(''ocflib.account_submitted'', dict_reasons (to_dict request) warns)]
           \<and> provisioner_calls (effects_since w w') = []"
proof -
  have fresh: "NewAccountRequest.user_name request
      \<notin> StoredNewAccountRequest.user_name ` set (request_table w)"
    using assms(4) by (auto simp add: username_pending_def query_exists_def list_ex_iff)
  let ?row = "(from_request request)\<lparr> id_col := Some (auto_increment w) \<rparr>"
  have ins: "insert_row (from_request request) (w\<lparr> effects := es \<rparr>)
      = Inr (w\<lparr> request_table := request_table w @ [?row],
                 auto_increment := auto_increment w + 1,
                 effects := es @ [Insert_row ?row] \<rparr>)" for es
    using fresh assms(5) by (simp add: insert_row_def from_request_def Let_def)
  have same: "to_request ?row (handle_warnings request) = request"
    by (simp add: from_request_def to_request_def)
  show ?thesis
    using same
    by (simp add: create_account_submit_eq [OF assms(1-3)] ins effects_since_def
        store_writes_def provisioner_calls_def events_def map_filter_simps Let_def)
qed

theorem create_account_submitted_witness:
  "validate_request flagging (carol WARNINGS_SUBMIT) (request_table empty_world)
     = ([], [''name mismatch''])
   \<and> [''name mismatch''] \<noteq> []
   \<and> handle_warnings (carol WARNINGS_SUBMIT) = WARNINGS_SUBMIT
   \<and> \<not> fst (username_pending empty_world (carol WARNINGS_SUBMIT))
   \<and> fits_columns ((from_request (carol WARNINGS_SUBMIT))
         \<lparr> id_col := Some (auto_increment empty_world) \<rparr>)
   \<and> fst (create_account flagging (carol WARNINGS_SUBMIT) empty_world)
       = Inr \<lparr> status = PENDING, errors = [''name mismatch''] \<rparr>
   \<and> request_table (snd (create_account flagging (carol WARNINGS_SUBMIT) empty_world))
       = [(from_request (carol WARNINGS_SUBMIT))\<lparr> id_col := Some 1 \<rparr>]"
proof -
  have v: "validate_request flagging (carol WARNINGS_SUBMIT) (request_table empty_world)
     = ([], [''name mismatch''])"
    by (simp add: flagging_def)
  have n: "[''name mismatch''] \<noteq> []"
    by simp
  have m: "handle_warnings (carol WARNINGS_SUBMIT) = WARNINGS_SUBMIT"
    by (simp add: carol_def)
  have p: "\<not> fst (username_pending empty_world (carol WARNINGS_SUBMIT))"
    by (simp add: username_pending_def query_exists_def empty_world_def)
  have t: "request_table empty_world = []" and a: "auto_increment empty_world = 1"
    by (simp_all add: empty_world_def)
  have f: "fits_columns ((from_request (carol WARNINGS_SUBMIT))
         \<lparr> id_col := Some (auto_increment empty_world) \<rparr>)"
    by (simp add: fits_columns_def fits_Integer_def from_request_def carol_def a)
  from create_account_submitted [OF v n m p f] t a v m p f show ?thesis
    by (simp add: case_prod_unfold Let_def)
qed

text \<open>
  A request whose username is already stored, passed by a Validator that only warns: the
  commit raises, no response is returned, no row is added and no event is published.
\<close>

theorem create_account_submit_conflict:
  "validate_request flagging (carol WARNINGS_SUBMIT)
       (request_table (pending (carol WARNINGS_SUBMIT)))
     = ([], [''name mismatch''])
   \<and> handle_warnings (carol WARNINGS_SUBMIT) = WARNINGS_SUBMIT
   \<and> fst (create_account flagging (carol WARNINGS_SUBMIT) (pending (carol WARNINGS_SUBMIT)))
       = Inl IntegrityError
   \<and> request_table
        (snd (create_account flagging (carol WARNINGS_SUBMIT) (pending (carol WARNINGS_SUBMIT))))
       = request_table (pending (carol WARNINGS_SUBMIT))
   \<and> events (effects_since (pending (carol WARNINGS_SUBMIT))
        (snd (create_account flagging (carol WARNINGS_SUBMIT) (pending (carol WARNINGS_SUBMIT)))))
       = []"
proof -
  let ?w = "pending (carol WARNINGS_SUBMIT)"
  have v: "validate_request flagging (carol WARNINGS_SUBMIT) (request_table ?w)
     = ([], [''name mismatch''])"
    by (simp add: flagging_def)
  have n: "[''name mismatch''] \<noteq> []"
    by simp
  have m: "handle_warnings (carol WARNINGS_SUBMIT) = WARNINGS_SUBMIT"
    by (simp add: carol_def)
  have i: "insert_row (from_request (carol WARNINGS_SUBMIT)) (?w\<lparr> effects := es \<rparr>)
      = Inl IntegrityError" for es
    by (simp add: insert_row_def pending_def from_request_def carol_def fits_columns_def
        fits_Integer_def Let_def)
  show ?thesis
    using v m
    by (simp add: create_account_submit_eq [OF v n m] i effects_since_def events_def
        map_filter_simps)
qed

text \<open>
  C3. With no errors, a non-empty warning list and mode \<^verbatim>\<open>WARN\<close>, \<^verbatim>\<open>create_account\<close>
  returns \<^verbatim>\<open>FLAGGED\<close> with the warnings, writes nothing to the store and does not call
  the provisioner.
\<close>

theorem create_account_flagged:
  assumes "validate_request c request (request_table w) = ([], warns)"
    and "warns \<noteq> []"
    and "handle_warnings request = WARNINGS_WARN"
  shows "case create_account c request w of (r, w') \<Rightarrow>
           r = Inr \<lparr> status = FLAGGED, errors = warns \<rparr>
           \<and> request_table w' = request_table w
           \<and> store_writes (effects_since w w') = []
           \<and> provisioner_calls (effects_since w w') = []"
  using assms
  by (simp add: create_account_def validating effects_since_def
      store_writes_def provisioner_calls_def map_filter_simps)

theorem create_account_flagged_witness:
  "validate_request flagging (carol WARNINGS_WARN) (request_table empty_world)
     = ([], [''name mismatch''])
   \<and> [''name mismatch''] \<noteq> []
   \<and> handle_warnings (carol WARNINGS_WARN) = WARNINGS_WARN
   \<and> fst (create_account flagging (carol WARNINGS_WARN) empty_world)
       = Inr \<lparr> status = FLAGGED, errors = [''name mismatch''] \<rparr>
   \<and> request_table (snd (create_account flagging (carol WARNINGS_WARN) empty_world)) = []"
proof -
  have v: "validate_request flagging (carol WARNINGS_WARN) (request_table empty_world)
     = ([], [''name mismatch''])"
    by (simp add: flagging_def)
  have n: "[''name mismatch''] \<noteq> []"
    by simp
  have m: "handle_warnings (carol WARNINGS_WARN) = WARNINGS_WARN"
    by (simp add: carol_def)
  have t: "request_table empty_world = []"
    by (simp add: empty_world_def)
  from create_account_flagged [OF v n m] t v m show ?thesis
    by (simp add: case_prod_unfold)
qed

text \<open>
  C4. With no errors and either no warnings or mode \<^verbatim>\<open>CREATE\<close>, \<^verbatim>\<open>create_account\<close> calls
  the provisioner exactly once and writes nothing to the store. When the provisioner
  returns, exactly one \<^verbatim>\<open>account_created\<close> event is published and the response is
  \<^verbatim>\<open>CREATED\<close> with no errors; when it raises, the exception leaves the task and no event
  is published.
\<close>

theorem create_account_created:
  assumes "validate_request c request (request_table w) = ([], warns)"
    and "warns = [] \<or> handle_warnings request = WARNINGS_CREATE"
  shows "case create_account c request w of (r, w') \<Rightarrow>
           provisioner_calls (effects_since w w') = [request]
           \<and> request_table w' = request_table w
           \<and> store_writes (effects_since w w') = []
           \<and> (case real_create_account c request of
                 None \<Rightarrow>
                   r = Inr \<lparr> status = CREATED, errors = [] \<rparr>
                   \<and> events (effects_since w w')
                       = [(''ocflib.account_created'', to_dict request)]
               | Some msg \<Rightarrow>
                   r = Inl (CreationFailure msg) \<and> events (effects_since w w') = [])"
  using assms
  by (auto simp add: create_account_def validating provision_def dispatch_event_def
      effects_since_def store_writes_def provisioner_calls_def events_def map_filter_simps
      Let_def split: option.splits)

theorem create_account_created_witness:
  "validate_request accepting (carol WARNINGS_WARN) (request_table empty_world) = ([], [])
   \<and> fst (create_account accepting (carol WARNINGS_WARN) empty_world)
       = Inr \<lparr> status = CREATED, errors = [] \<rparr>
   \<and> validate_request flagging (carol WARNINGS_CREATE) (request_table empty_world)
       = ([], [''name mismatch''])
   \<and> handle_warnings (carol WARNINGS_CREATE) = WARNINGS_CREATE
   \<and> fst (create_account flagging (carol WARNINGS_CREATE) empty_world)
       = Inr \<lparr> status = CREATED, errors = [] \<rparr>"
proof -
  have v1: "validate_request accepting (carol WARNINGS_WARN) (request_table empty_world)
      = ([], [])"
    by (simp add: accepting_def)
  have p1: "real_create_account accepting (carol WARNINGS_WARN) = None"
    by (simp add: accepting_def)
  have v2: "validate_request flagging (carol WARNINGS_CREATE) (request_table empty_world)
      = ([], [''name mismatch''])"
    by (simp add: flagging_def)
  have p2: "real_create_account flagging (carol WARNINGS_CREATE) = None"
    by (simp add: flagging_def)
  have m: "handle_warnings (carol WARNINGS_CREATE) = WARNINGS_CREATE"
    by (simp add: carol_def)
  from create_account_created [OF v1] create_account_created [OF v2] p1 p2 m v1 v2
  show ?thesis
    by (simp add: case_prod_unfold)
qed

text \<open>
  A provisioner that raises: the task ends with its exception, no \<^verbatim>\<open>CREATED\<close> response
  and no \<^verbatim>\<open>account_created\<close> event.
\<close>

theorem create_account_provisioner_failure:
  "validate_request failing (carol WARNINGS_CREATE) (request_table empty_world)
     = ([], [''name mismatch''])
   \<and> handle_warnings (carol WARNINGS_CREATE) = WARNINGS_CREATE
   \<and> fst (create_account failing (carol WARNINGS_CREATE) empty_world)
       = Inl (CreationFailure ''kadmin failed'')
   \<and> events (effects_since empty_world
        (snd (create_account failing (carol WARNINGS_CREATE) empty_world))) = []"
proof -
  have v: "validate_request failing (carol WARNINGS_CREATE) (request_table empty_world)
     = ([], [''name mismatch''])"
    by (simp add: failing_def)
  have m: "handle_warnings (carol WARNINGS_CREATE) = WARNINGS_CREATE"
    by (simp add: carol_def)
  have p: "real_create_account failing (carol WARNINGS_CREATE) = Some ''kadmin failed''"
    by (simp add: failing_def)
  have eq: "create_account failing (carol WARNINGS_CREATE) empty_world =
     provision failing (carol WARNINGS_CREATE)
       (empty_world\<lparr> effects := effects empty_world @
            [Update_state [''Validating account request''],
             Update_state [''Validating account request'', ''Validated account request'']] \<rparr>)"
    using m by (intro create_account_provision_eq [OF v]) simp
  show ?thesis
    using v m
    by (simp add: eq provision_def p effects_since_def events_def map_filter_simps)
qed

text \<open>
  C5. For a username with no stored row, \<^verbatim>\<open>approve_request\<close> and \<^verbatim>\<open>reject_request\<close> fail:
  \<^verbatim>\<open>first()\<close> gives \<^verbatim>\<open>None\<close>, \<^verbatim>\<open>session.delete\<close> raises on it, and the exception leaves the
  task before anything is committed, enqueued, mailed or published. The world, and with
  it the store, is what it was.
\<close>

theorem approve_reject_absent:
  assumes "u \<notin> set (map StoredNewAccountRequest.user_name (request_table w))"
  shows "approve_request u w = (Inl UnmappedInstanceError, w)
       \<and> reject_request u w = (Inl UnmappedInstanceError, w)"
  using assms by (simp add: approve_request_def reject_request_def get_remove_row_absent)

theorem approve_reject_absent_witness:
  "''alice'' \<notin> set (map StoredNewAccountRequest.user_name
       (request_table (pending (carol WARNINGS_SUBMIT))))
   \<and> approve_request ''alice'' (pending (carol WARNINGS_SUBMIT))
       = (Inl UnmappedInstanceError, pending (carol WARNINGS_SUBMIT))
   \<and> reject_request ''alice'' (pending (carol WARNINGS_SUBMIT))
       = (Inl UnmappedInstanceError, pending (carol WARNINGS_SUBMIT))"
proof -
  have a: "''alice'' \<notin> set (map StoredNewAccountRequest.user_name
       (request_table (pending (carol WARNINGS_SUBMIT))))"
    by (simp add: pending_def from_request_def carol_def)
  from approve_reject_absent [OF a] a show ?thesis
    by simp
qed

text \<open>
  C6. For a username with a stored row, in a well-formed table, \<^verbatim>\<open>approve_request\<close> and
  \<^verbatim>\<open>reject_request\<close> succeed and remove exactly that row. The delete is the first effect
  of the run, committed by the session that read the row; the enqueued \<^verbatim>\<open>create_account\<close>
  job (approval) or the rejection mail (rejection) and the event come after it, and they
  carry the request rebuilt from the row with the default mode. In the world that
  results no row has the username, and a further approval or rejection of it fails and
  changes nothing.
\<close>

theorem approve_reject_delete_then_act:
  assumes "table_ok w"
    and "row \<in> set (request_table w)"
    and "StoredNewAccountRequest.user_name row = u"
  shows "(case approve_request u w of (r, w') \<Rightarrow>
            r = Inr ()
          \<and> request_table w' = remove1 row (request_table w)
          \<and> effects_since w w' =
               [Delete_row row,
                Delay_create_account (to_request_default row),
                Dispatch_event ''ocflib.account_approved'' (to_dict (to_request_default row))]
          \<and> u \<notin> set (map StoredNewAccountRequest.user_name (request_table w'))
          \<and> approve_request u w' = (Inl UnmappedInstanceError, w')
          \<and> reject_request u w' = (Inl UnmappedInstanceError, w'))
       \<and> (case reject_request u w of (r, w') \<Rightarrow>
            r = Inr ()
          \<and> request_table w' = remove1 row (request_table w)
          \<and> effects_since w w' =
               [Delete_row row,
                Send_rejected_mail (to_request_default row) ''TODO: come up with a reason'',
                Dispatch_event ''ocflib.account_rejected'' (to_dict (to_request_default row))]
          \<and> u \<notin> set (map StoredNewAccountRequest.user_name (request_table w'))
          \<and> approve_request u w' = (Inl UnmappedInstanceError, w')
          \<and> reject_request u w' = (Inl UnmappedInstanceError, w'))"
proof -
  have gone: "u \<notin> set (map StoredNewAccountRequest.user_name (remove1 row (request_table w)))"
    using assms remove1_user_name_absent [of "request_table w" row]
    by (simp add: table_ok_def)
  have fetch: "get_remove_row_by_user_name u w
         = (Inr (to_request_default row),
            w\<lparr> request_table := remove1 row (request_table w),
               effects := effects w @ [Delete_row row] \<rparr>)"
    using get_remove_row_present [OF assms(1,2)] assms(3) by simp
  show ?thesis
    using gone
    by (simp add: approve_request_def reject_request_def fetch dispatch_event_def
        effects_since_def get_remove_row_absent Let_def)
qed

theorem approve_reject_delete_then_act_witness:
  "table_ok (pending (carol WARNINGS_SUBMIT))
   \<and> (from_request (carol WARNINGS_SUBMIT))\<lparr> id_col := Some 1 \<rparr>
       \<in> set (request_table (pending (carol WARNINGS_SUBMIT)))
   \<and> StoredNewAccountRequest.user_name
        ((from_request (carol WARNINGS_SUBMIT))\<lparr> id_col := Some 1 \<rparr>) = ''carol''
   \<and> fst (approve_request ''carol'' (pending (carol WARNINGS_SUBMIT))) = Inr ()
   \<and> request_table (snd (approve_request ''carol'' (pending (carol WARNINGS_SUBMIT)))) = []
   \<and> fst (reject_request ''carol'' (pending (carol WARNINGS_SUBMIT))) = Inr ()
   \<and> request_table (snd (reject_request ''carol'' (pending (carol WARNINGS_SUBMIT)))) = []"
proof -
  let ?row = "(from_request (carol WARNINGS_SUBMIT))\<lparr> id_col := Some 1 \<rparr>"
  have ok: "table_ok (pending (carol WARNINGS_SUBMIT))"
    by (rule table_ok_pending)
  have t: "request_table (pending (carol WARNINGS_SUBMIT)) = [?row]"
    by (simp add: pending_def)
  have mem: "?row \<in> set (request_table (pending (carol WARNINGS_SUBMIT)))"
    by (simp add: t)
  have name: "StoredNewAccountRequest.user_name ?row = ''carol''"
    by (simp add: from_request_def carol_def)
  from approve_reject_delete_then_act [OF ok mem name] ok mem name t show ?thesis
    by (simp add: case_prod_unfold)
qed

text \<open>
  C7. A request turned into a stored row and back is the same request in its username,
  real name, group flag, both identity numbers, email and encrypted password; its
  \<^verbatim>\<open>handle_warnings\<close> is the mode handed to \<^verbatim>\<open>to_request\<close>, and \<^verbatim>\<open>WARNINGS_CREATE\<close> when
  none is handed over.
\<close>

theorem from_request_to_request:
  "to_request (from_request r) hw = r\<lparr> handle_warnings := hw \<rparr>
   \<and> to_request_default (from_request r) = r\<lparr> handle_warnings := WARNINGS_CREATE \<rparr>
   \<and> NewAccountRequest.user_name (to_request (from_request r) hw)
       = NewAccountRequest.user_name r
   \<and> NewAccountRequest.real_name (to_request (from_request r) hw)
       = NewAccountRequest.real_name r
   \<and> NewAccountRequest.is_group (to_request (from_request r) hw)
       = NewAccountRequest.is_group r
   \<and> NewAccountRequest.calnet_uid (to_request (from_request r) hw)
       = NewAccountRequest.calnet_uid r
   \<and> NewAccountRequest.callink_oid (to_request (from_request r) hw)
       = NewAccountRequest.callink_oid r
   \<and> NewAccountRequest.email (to_request (from_request r) hw)
       = NewAccountRequest.email r
   \<and> NewAccountRequest.encrypted_password (to_request (from_request r) hw)
       = NewAccountRequest.encrypted_password r
   \<and> handle_warnings (to_request (from_request r) hw) = hw
   \<and> handle_warnings (to_request_default (from_request r)) = WARNINGS_CREATE"
  by (simp add: to_request_def to_request_default_def from_request_def)

text \<open>
  C8. \<^verbatim>\<open>user_has_request_pending\<close>: for a group request whose organization ID is not 0,
  true exactly when a stored row has that organization ID; for an individual request,
  true exactly when a stored row has the request's university ID; for a group request
  with organization ID 0, false whatever is stored. The query leaves the world as it
  was.
\<close>

theorem user_has_request_pending_cases:
  "(NewAccountRequest.is_group r \<and> NewAccountRequest.callink_oid r \<noteq> Some 0 \<longrightarrow>
      fst (user_has_request_pending w r)
        = (\<exists>row\<in>set (request_table w).
             StoredNewAccountRequest.callink_oid row = NewAccountRequest.callink_oid r))
   \<and> (\<not> NewAccountRequest.is_group r \<longrightarrow>
      fst (user_has_request_pending w r)
        = (\<exists>row\<in>set (request_table w).
             StoredNewAccountRequest.calnet_uid row = NewAccountRequest.calnet_uid r))
   \<and> (NewAccountRequest.is_group r \<and> NewAccountRequest.callink_oid r = Some 0 \<longrightarrow>
      fst (user_has_request_pending w r) = False)
   \<and> snd (user_has_request_pending w r) = w"
  by (simp add: user_has_request_pending_def query_exists_def list_ex_iff)

theorem user_has_request_pending_cases_witness:
  "NewAccountRequest.is_group (club (Some 7))
   \<and> NewAccountRequest.callink_oid (club (Some 7)) \<noteq> Some 0
   \<and> fst (user_has_request_pending (pending (club (Some 7))) (club (Some 7)))
   \<and> \<not> fst (user_has_request_pending (pending (club (Some 8))) (club (Some 7)))
   \<and> \<not> NewAccountRequest.is_group (carol WARNINGS_WARN)
   \<and> fst (user_has_request_pending (pending (carol WARNINGS_SUBMIT)) (carol WARNINGS_WARN))
   \<and> \<not> fst (user_has_request_pending (pending (club (Some 7))) (carol WARNINGS_WARN))
   \<and> NewAccountRequest.callink_oid (club (Some 0)) = Some 0
   \<and> \<not> fst (user_has_request_pending (pending (club (Some 0))) (club (Some 0)))"
proof -
  have g: "NewAccountRequest.is_group (club oid)"
    and o: "NewAccountRequest.callink_oid (club oid) = oid"
    and n: "NewAccountRequest.calnet_uid (club oid) = None" for oid
    by (simp_all add: club_def)
  have i: "\<not> NewAccountRequest.is_group (carol hw)"
    and u: "NewAccountRequest.calnet_uid (carol hw) = Some 999" for hw
    by (simp_all add: carol_def)
  have t: "request_table (pending request) = [(from_request request)\<lparr> id_col := Some 1 \<rparr>]"
    for request
    by (simp add: pending_def)
  from user_has_request_pending_cases [of "club (Some 7)" "pending (club (Some 7))"]
    user_has_request_pending_cases [of "club (Some 7)" "pending (club (Some 8))"]
    user_has_request_pending_cases [of "carol WARNINGS_WARN" "pending (carol WARNINGS_SUBMIT)"]
    user_has_request_pending_cases [of "carol WARNINGS_WARN" "pending (club (Some 7))"]
    user_has_request_pending_cases [of "club (Some 0)" "pending (club (Some 0))"]
  show ?thesis
    by (simp add: g o n i u t from_request_def)
qed

text \<open>
  C9. \<^verbatim>\<open>username_pending\<close> only reads: it returns the world it was given, so a second call
  right after the first returns the same answer and the same world. The answer is
  whether some stored row has the request's username.
\<close>

theorem username_pending_read_only:
  "snd (username_pending w r) = w
   \<and> username_pending (snd (username_pending w r)) r = username_pending w r
   \<and> fst (username_pending w r)
       = (\<exists>row\<in>set (request_table w).
            StoredNewAccountRequest.user_name row = NewAccountRequest.user_name r)"
  by (simp add: username_pending_def query_exists_def list_ex_iff)

text \<open>
  C10. With no errors, a non-empty warning list and a mode that is neither \<^verbatim>\<open>SUBMIT\<close> nor
  \<^verbatim>\<open>WARN\<close> (\<^verbatim>\<open>CREATE\<close> or any other value), \<^verbatim>\<open>create_account\<close> takes the path of the
  \<^verbatim>\<open>CREATE\<close> case: it calls the provisioner exactly once and writes nothing to the store;
  when the provisioner returns, exactly one \<^verbatim>\<open>account_created\<close> event is published and
  the response is \<^verbatim>\<open>CREATED\<close> with no errors; when it raises, the exception leaves the
  task and no event is published.
\<close>

theorem create_account_other_mode:
  assumes "validate_request c request (request_table w) = ([], warns)"
    and "warns \<noteq> []"
    and "handle_warnings request \<noteq> WARNINGS_SUBMIT"
    and "handle_warnings request \<noteq> WARNINGS_WARN"
  shows "case create_account c request w of (r, w') \<Rightarrow>
           provisioner_calls (effects_since w w') = [request]
           \<and> request_table w' = request_table w
           \<and> store_writes (effects_since w w') = []
           \<and> (case real_create_account c request of
                 None \<Rightarrow>
                   r = Inr \<lparr> status = CREATED, errors = [] \<rparr>
                   \<and> events (effects_since w w')
                       = [(''ocflib.account_created'', to_dict request)]
               | Some msg \<Rightarrow>
                   r = Inl (CreationFailure msg) \<and> events (effects_since w w') = [])"
proof -
  have "create_account c request w =
     provision c request
       (w\<lparr> effects := effects w @
            [Update_state [''Validating account request''],
             Update_state [''Validating account request'', ''Validated account request'']] \<rparr>)"
    using assms by (intro create_account_provision_eq) simp_all
  then show ?thesis
    by (simp add: provision_def dispatch_event_def effects_since_def store_writes_def
        provisioner_calls_def events_def map_filter_simps Let_def split: option.splits)
qed

theorem create_account_other_mode_witness:
  "validate_request flagging (carol (WARNINGS_OTHER ''force'')) (request_table empty_world)
     = ([], [''name mismatch''])
   \<and> [''name mismatch''] \<noteq> []
   \<and> handle_warnings (carol (WARNINGS_OTHER ''force'')) \<noteq> WARNINGS_SUBMIT
   \<and> handle_warnings (carol (WARNINGS_OTHER ''force'')) \<noteq> WARNINGS_WARN
   \<and> fst (create_account flagging (carol (WARNINGS_OTHER ''force'')) empty_world)
       = Inr \<lparr> status = CREATED, errors = [] \<rparr>
   \<and> request_table (snd (create_account flagging (carol (WARNINGS_OTHER ''force'')) empty_world))
       = []"
proof -
  let ?r = "carol (WARNINGS_OTHER ''force'')"
  have v: "validate_request flagging ?r (request_table empty_world) = ([], [''name mismatch''])"
    by (simp add: flagging_def)
  have n: "[''name mismatch''] \<noteq> []"
    by simp
  have m1: "handle_warnings ?r \<noteq> WARNINGS_SUBMIT" and m2: "handle_warnings ?r \<noteq> WARNINGS_WARN"
    by (simp_all add: carol_def)
  have p: "real_create_account flagging ?r = None"
    by (simp add: flagging_def)
  have t: "request_table empty_world = []"
    by (simp add: empty_world_def)
  from create_account_other_mode [OF v n m1 m2] p t v m1 m2 show ?thesis
    by (simp add: case_prod_unfold)
qed

text \<open>
  A mode that is none of the three constants, and a provisioner that raises: the task
  ends with the provisioner's exception, no \<^verbatim>\<open>CREATED\<close> response and no event.
\<close>

theorem create_account_other_mode_failure:
  "validate_request failing (carol (WARNINGS_OTHER ''force'')) (request_table empty_world)
     = ([], [''name mismatch''])
   \<and> handle_warnings (carol (WARNINGS_OTHER ''force'')) \<noteq> WARNINGS_SUBMIT
   \<and> handle_warnings (carol (WARNINGS_OTHER ''force'')) \<noteq> WARNINGS_WARN
   \<and> fst (create_account failing (carol (WARNINGS_OTHER ''force'')) empty_world)
       = Inl (CreationFailure ''kadmin failed'')
   \<and> events (effects_since empty_world
        (snd (create_account failing (carol (WARNINGS_OTHER ''force'')) empty_world))) = []"
proof -
  let ?r = "carol (WARNINGS_OTHER ''force'')"
  have v: "validate_request failing ?r (request_table empty_world) = ([], [''name mismatch''])"
    by (simp add: failing_def)
  have m: "handle_warnings ?r \<noteq> WARNINGS_SUBMIT \<and> handle_warnings ?r \<noteq> WARNINGS_WARN"
    by (simp add: carol_def)
  have p: "real_create_account failing ?r = Some ''kadmin failed''"
    by (simp add: failing_def)
  have eq: "create_account failing ?r empty_world =
     provision failing ?r
       (empty_world\<lparr> effects := effects empty_world @
            [Update_state [''Validating account request''],
             Update_state [''Validating account request'', ''Validated account request'']] \<rparr>)"
    using m by (intro create_account_provision_eq [OF v]) simp
  show ?thesis
    using v m
    by (simp add: eq provision_def p effects_since_def events_def map_filter_simps)
qed

end
